theory Spec2Isabelle
  imports Complex_Main "HOL-Library.AList" "HOL-Library.Multiset"
begin

section \<open>The recordings log of the Replay CLI\<close>

text \<open>
  The development follows the module that owns \<^verbatim>\<open>recordings.log\<close>: the
  line-oriented log file, the fold that rebuilds the recordings from it
  (\<^verbatim>\<open>readRecordings\<close>), the listing and filtering of recordings, the upload
  of a recording or of a crash report, the removal of a recording and of its
  asset files, and the retry helper with its back-off.

  JavaScript values are typed as the log's writer emits them: identifiers, paths,
  kinds and reasons are strings, and a field that is absent (\<^verbatim>\<open>undefined\<close>)
  is \<open>None\<close>. On two such values \<^verbatim>\<open>==\<close> and \<^verbatim>\<open>===\<close> are both equality of
  \<open>string option\<close>. Loosely typed payloads (metadata values, crash data) are
  values of \<open>jvalue\<close>, where \<^verbatim>\<open>undefined\<close> is \<open>VUndefined\<close>.
\<close>

subsection \<open>Data\<close>

datatype jvalue =
    VUndefined
  | VNull
  | VBool bool
  | VNum int
  | VStr string
  | VArr "jvalue list"
  | VObj "(string \<times> jvalue) list"

text \<open>JavaScript truthiness, as \<^verbatim>\<open>!recording.metadata.title\<close> tests it.\<close>

fun truthy :: "jvalue \<Rightarrow> bool" where
  "truthy VUndefined = False"
| "truthy VNull = False"
| "truthy (VBool b) = b"
| "truthy (VNum n) = (n \<noteq> 0)"
| "truthy (VStr s) = (s \<noteq> [])"
| "truthy (VArr _) = True"
| "truthy (VObj _) = True"

text \<open>Truthiness of an optional string: \<^verbatim>\<open>undefined\<close> and \<^verbatim>\<open>""\<close> are falsy.\<close>

fun truthyStr :: "string option \<Rightarrow> bool" where
  "truthyStr None = False"
| "truthyStr (Some s) = (s \<noteq> [])"

type_synonym metadata = "(string \<times> jvalue) list"

datatype status =
    unknown
  | startedWrite
  | onDisk
  | startedUpload
  | uploaded
  | unusable
  | crashed
  | crashUploaded

text \<open>
  The object a log line parses to, with the fields that the module reads from it.
\<close>

record logEntry =
  obj_kind :: "string option"
  obj_id :: "string option"
  obj_timestamp :: "int option"
  obj_buildId :: "string option"
  obj_metadata :: "metadata option"
  obj_path :: "string option"
  obj_server :: "string option"
  obj_recordingId :: "string option"
  obj_reason :: "string option"
  obj_data :: "jvalue option"
  obj_baseURL :: "string option"
  obj_targetContentHash :: "string option"
  obj_targetURLHash :: "string option"
  obj_targetMapURLHash :: "string option"
  obj_parentId :: "string option"
  obj_parentOffset :: "int option"

text \<open>
  What \<^verbatim>\<open>JSON.parse\<close> returns for a line that is valid JSON: \<^verbatim>\<open>null\<close>, on which
  every property read throws a \<^verbatim>\<open>TypeError\<close>, or a value with properties. A
  number, a string, a boolean or an array has none of the properties above and is the
  object with every field absent.
\<close>

datatype json = JNull | JObject logEntry

record originalSource =
  os_path :: "string option"
  os_parentOffset :: "int option"

record sourceMapEntry =
  sm_id :: "string option"
  sm_path :: "string option"
  sm_baseURL :: "string option"
  sm_targetContentHash :: "string option"
  sm_targetURLHash :: "string option"
  sm_targetMapURLHash :: "string option"
  originalSources :: "originalSource list"

text \<open>
  \<^verbatim>\<open>RecordingEntry\<close>. \<open>createTime\<close> holds the timestamp that
  \<^verbatim>\<open>new Date(timestamp)\<close> wraps; \<open>recId\<close> is the field \<^verbatim>\<open>id\<close>.
\<close>

record recording =
  recId :: "string option"
  createTime :: "int option"
  buildId :: "string option"
  runtime :: string
  metadata :: metadata
  sourcemaps :: "sourceMapEntry list"
  status :: status
  path :: "string option"
  server :: "string option"
  recordingId :: "string option"
  unusableReason :: "string option"
  crashData :: "jvalue list option"

datatype error =
    TypeError
  | IOError
  | RemoteError string
  | AggregateError "error list"
  | ShouldBeUnreachable

text \<open>
  The functions of the platform and of modules outside this one that the log code
  calls: \<^verbatim>\<open>JSON.parse\<close> (\<open>None\<close> when it throws), \<^verbatim>\<open>JSON.stringify\<close> on an
  event, and \<^verbatim>\<open>generateDefaultTitle\<close>.
\<close>

record platform =
  JSON_parse :: "string \<Rightarrow> json option"
  JSON_stringify :: "logEntry \<Rightarrow> string"
  generateDefaultTitle :: "metadata \<Rightarrow> jvalue"

subsection \<open>The log file\<close>

text \<open>
  The world is the content of \<^verbatim>\<open>recordings.log\<close> in the directory in use
  (\<open>None\<close> when the file does not exist) and the other files on disk, by path.
  No asset path designates the log file itself.
\<close>

record world =
  logfile :: "string option"
  files :: "string \<Rightarrow> string option"

text \<open>\<^verbatim>\<open>s.split("\n")\<close> and \<^verbatim>\<open>lines.join("\n")\<close>.\<close>

fun splitLines :: "string \<Rightarrow> string list" where
  "splitLines [] = [[]]"
| "splitLines (c # cs) =
     (if c = CHR 0x0A then [] # splitLines cs
      else (case splitLines cs of
              [] \<Rightarrow> [[c]]
            | l # ls \<Rightarrow> (c # l) # ls))"

fun joinLines :: "string list \<Rightarrow> string" where
  "joinLines [] = []"
| "joinLines [l] = l"
| "joinLines (l # l' # ls) = l @ CHR 0x0A # joinLines (l' # ls)"

definition readRecordingFile :: "world \<Rightarrow> string list" where
  "readRecordingFile w =
     (case logfile w of
        None \<Rightarrow> []
      | Some content \<Rightarrow> splitLines content)"

definition writeRecordingFile :: "string list \<Rightarrow> world \<Rightarrow> world" where
  "writeRecordingFile lines w = w\<lparr>logfile := Some (joinLines lines @ [CHR 0x0A])\<rparr>"

subsection \<open>The runtime of a build\<close>

text \<open>
  \<^verbatim>\<open>/.*?-(.*?)-/.exec(buildId)\<close>. A dot matches every character but a line
  terminator. \<open>lazyUntilDash\<close> is one lazy \<^verbatim>\<open>.*?-\<close>: the shortest run of
  such characters up to a dash. Backtracking into a longer run never helps: a second
  dash reachable from a later dash is reachable from the first one. The search tries
  every start position from the left.
\<close>

definition isLineTerminator :: "char \<Rightarrow> bool" where
  "isLineTerminator c = (c = CHR 0x0A \<or> c = CHR 0x0D)"

fun lazyUntilDash :: "string \<Rightarrow> string \<Rightarrow> (string \<times> string) option" where
  "lazyUntilDash acc [] = None"
| "lazyUntilDash acc (c # cs) =
     (if c = CHR ''-'' then Some (rev acc, cs)
      else if isLineTerminator c then None
      else lazyUntilDash (c # acc) cs)"

definition matchAt :: "string \<Rightarrow> string option" where
  "matchAt s =
     (case lazyUntilDash [] s of
        None \<Rightarrow> None
      | Some (_, rest) \<Rightarrow>
          (case lazyUntilDash [] rest of
             None \<Rightarrow> None
           | Some (captured, _) \<Rightarrow> Some captured))"

fun regexExec :: "string \<Rightarrow> string option" where
  "regexExec [] = matchAt []"
| "regexExec (c # cs) =
     (case matchAt (c # cs) of
        Some captured \<Rightarrow> Some captured
      | None \<Rightarrow> regexExec cs)"

definition getBuildRuntime :: "string \<Rightarrow> string" where
  "getBuildRuntime b =
     (case regexExec b of
        Some captured \<Rightarrow> captured
      | None \<Rightarrow> ''unknown'')"

text \<open>The string that a regular expression sees for an absent argument.\<close>

definition toStringArg :: "string option \<Rightarrow> string" where
  "toStringArg v = (case v of None \<Rightarrow> ''undefined'' | Some s \<Rightarrow> s)"

subsection \<open>The fold over the log\<close>

definition updateStatus :: "recording \<Rightarrow> status \<Rightarrow> recording" where
  "updateStatus r s =
     (if status r = unusable \<or> status r = crashUploaded \<or>
         (status r = crashed \<and> s \<noteq> crashUploaded)
      then r
      else r\<lparr>status := s\<rparr>)"

text \<open>
  \<^verbatim>\<open>recordings.find(p)\<close> followed by a mutation of the recording found: the
  first element that satisfies \<open>p\<close> is updated in place, and nothing happens when
  there is none.
\<close>

fun updateFirst :: "('a \<Rightarrow> bool) \<Rightarrow> ('a \<Rightarrow> 'a) \<Rightarrow> 'a list \<Rightarrow> 'a list" where
  "updateFirst p f [] = []"
| "updateFirst p f (x # xs) = (if p x then f x # xs else x # updateFirst p f xs)"

text \<open>\<^verbatim>\<open>Object.assign(target, source)\<close> on property lists.\<close>

fun assign :: "metadata \<Rightarrow> metadata \<Rightarrow> metadata" where
  "assign target [] = target"
| "assign target ((k, v) # kvs) = assign (AList.update k v target) kvs"

text \<open>
  The \<^verbatim>\<open>addMetadata\<close> case: the metadata of the entry is assigned onto that of the
  recording; when the title is then falsy (absent, which reads as \<^verbatim>\<open>undefined\<close>,
  or a falsy value), it is assigned what \<^verbatim>\<open>generateDefaultTitle\<close> returns,
  \<^verbatim>\<open>undefined\<close> included.
\<close>

definition getTitle :: "metadata \<Rightarrow> jvalue" where
  "getTitle m = (case map_of m ''title'' of None \<Rightarrow> VUndefined | Some t \<Rightarrow> t)"

definition addMetadata :: "platform \<Rightarrow> metadata option \<Rightarrow> recording \<Rightarrow> recording" where
  "addMetadata P md r =
     (let m = (case md of None \<Rightarrow> metadata r | Some kvs \<Rightarrow> assign (metadata r) kvs);
          m' = (if \<not> truthy (getTitle m)
                then AList.update ''title'' (generateDefaultTitle P m) m
                else m)
      in r\<lparr>metadata := m'\<rparr>)"

text \<open>
  \<^verbatim>\<open>recording.crashData.push(data)\<close>, on a list that is created when absent. An
  entry without \<^verbatim>\<open>data\<close> pushes \<^verbatim>\<open>undefined\<close>.
\<close>

definition pushCrashData :: "jvalue option \<Rightarrow> recording \<Rightarrow> recording" where
  "pushCrashData d r =
     (let cd = (case crashData r of None \<Rightarrow> [] | Some ds \<Rightarrow> ds);
          v = (case d of None \<Rightarrow> VUndefined | Some x \<Rightarrow> x)
      in r\<lparr>crashData := Some (cd @ [v])\<rparr>)"

definition newRecording :: "logEntry \<Rightarrow> recording" where
  "newRecording obj =
     \<lparr> recId = obj_id obj,
       createTime = obj_timestamp obj,
       buildId = obj_buildId obj,
       runtime = getBuildRuntime (toStringArg (obj_buildId obj)),
       metadata = [],
       sourcemaps = [],
       status = unknown,
       path = None,
       server = None,
       recordingId = None,
       unusableReason = None,
       crashData = None \<rparr>"

definition newSourceMap :: "logEntry \<Rightarrow> sourceMapEntry" where
  "newSourceMap obj =
     \<lparr> sm_id = obj_id obj,
       sm_path = obj_path obj,
       sm_baseURL = obj_baseURL obj,
       sm_targetContentHash = obj_targetContentHash obj,
       sm_targetURLHash = obj_targetURLHash obj,
       sm_targetMapURLHash = obj_targetMapURLHash obj,
       originalSources = [] \<rparr>"

definition addOriginalSource :: "logEntry \<Rightarrow> recording \<Rightarrow> recording" where
  "addOriginalSource obj r =
     r\<lparr>sourcemaps :=
         updateFirst (\<lambda>s. sm_id s = obj_parentId obj)
           (\<lambda>s. s\<lparr>originalSources := originalSources s @
                     [\<lparr>os_path = obj_path obj, os_parentOffset = obj_parentOffset obj\<rparr>]\<rparr>)
           (sourcemaps r)\<rparr>"

text \<open>The body of the \<^verbatim>\<open>switch (obj.kind)\<close> for an object.\<close>

definition applyObject :: "platform \<Rightarrow> recording list \<Rightarrow> logEntry \<Rightarrow> recording list" where
  "applyObject P recordings obj =
     (let forId = (\<lambda>r. recId r = obj_id obj) in
      if obj_kind obj = Some ''createRecording'' then
        recordings @ [newRecording obj]
      else if obj_kind obj = Some ''addMetadata'' then
        updateFirst forId (addMetadata P (obj_metadata obj)) recordings
      else if obj_kind obj = Some ''writeStarted'' then
        updateFirst forId (\<lambda>r. (updateStatus r startedWrite)\<lparr>path := obj_path obj\<rparr>) recordings
      else if obj_kind obj = Some ''writeFinished'' then
        updateFirst forId (\<lambda>r. updateStatus r onDisk) recordings
      else if obj_kind obj = Some ''uploadStarted'' then
        updateFirst forId
          (\<lambda>r. (updateStatus r startedUpload)
                  \<lparr>server := obj_server obj, recordingId := obj_recordingId obj\<rparr>)
          recordings
      else if obj_kind obj = Some ''uploadFinished'' then
        updateFirst forId (\<lambda>r. updateStatus r uploaded) recordings
      else if obj_kind obj = Some ''recordingUnusable'' then
        updateFirst forId
          (\<lambda>r. (updateStatus r unusable)\<lparr>unusableReason := obj_reason obj\<rparr>) recordings
      else if obj_kind obj = Some ''crashed'' then
        updateFirst forId (\<lambda>r. updateStatus r crashed) recordings
      else if obj_kind obj = Some ''crashData'' then
        updateFirst forId (pushCrashData (obj_data obj)) recordings
      else if obj_kind obj = Some ''crashUploaded'' then
        updateFirst forId (\<lambda>r. updateStatus r crashUploaded) recordings
      else if obj_kind obj = Some ''sourcemapAdded'' then
        updateFirst (\<lambda>r. recId r = obj_recordingId obj)
          (\<lambda>r. r\<lparr>sourcemaps := sourcemaps r @ [newSourceMap obj]\<rparr>) recordings
      else if obj_kind obj = Some ''originalSourceAdded'' then
        updateFirst (\<lambda>r. recId r = obj_recordingId obj) (addOriginalSource obj) recordings
      else recordings)"

text \<open>One parsed value: \<^verbatim>\<open>obj.kind\<close> on \<^verbatim>\<open>null\<close> throws.\<close>

fun applyEntry :: "platform \<Rightarrow> recording list \<Rightarrow> json \<Rightarrow> error + recording list" where
  "applyEntry P recordings JNull = Inl TypeError"
| "applyEntry P recordings (JObject obj) = Inr (applyObject P recordings obj)"

text \<open>The loop body on a sequence of parsed values.\<close>

fun applyEntries :: "platform \<Rightarrow> recording list \<Rightarrow> json list \<Rightarrow> error + recording list" where
  "applyEntries P recordings [] = Inr recordings"
| "applyEntries P recordings (obj # objs) =
     (case applyEntry P recordings obj of
        Inl e \<Rightarrow> Inl e
      | Inr recordings' \<Rightarrow> applyEntries P recordings' objs)"

text \<open>
  The loop of \<^verbatim>\<open>readRecordings\<close> over the lines: a line that \<^verbatim>\<open>JSON.parse\<close>
  rejects is skipped by \<^verbatim>\<open>continue\<close>.
\<close>

fun readLoop :: "platform \<Rightarrow> recording list \<Rightarrow> string list \<Rightarrow> error + recording list" where
  "readLoop P recordings [] = Inr recordings"
| "readLoop P recordings (line # lines) =
     (case JSON_parse P line of
        None \<Rightarrow> readLoop P recordings lines
      | Some obj \<Rightarrow>
          (case applyEntry P recordings obj of
             Inl e \<Rightarrow> Inl e
           | Inr recordings' \<Rightarrow> readLoop P recordings' lines))"

text \<open>\<^verbatim>\<open>s.includes(t)\<close>.\<close>

fun includesStr :: "string \<Rightarrow> string \<Rightarrow> bool" where
  "includesStr [] t = (t = [])"
| "includesStr (c # cs) t = (take (length t) (c # cs) = t \<or> includesStr cs t)"

definition hidden :: "recording \<Rightarrow> bool" where
  "hidden r =
     includesStr (case unusableReason r of None \<Rightarrow> [] | Some s \<Rightarrow> s) ''No interesting content''"

definition readLines :: "platform \<Rightarrow> bool \<Rightarrow> string list \<Rightarrow> error + recording list" where
  "readLines P includeHidden lines =
     (case readLoop P [] lines of
        Inl e \<Rightarrow> Inl e
      | Inr recordings \<Rightarrow>
          Inr (if includeHidden then recordings
               else filter (\<lambda>r. \<not> hidden r) recordings))"

definition readRecordings :: "platform \<Rightarrow> bool \<Rightarrow> world \<Rightarrow> error + recording list" where
  "readRecordings P includeHidden w = readLines P includeHidden (readRecordingFile w)"

subsection \<open>Listing and filtering\<close>

text \<open>
  \<^verbatim>\<open>filterRecordings\<close> with a filter function, or with none. Without a filter the
  result is the array passed in, which holds every crashed recording already. With a
  filter, \<^verbatim>\<open>includeCrashes\<close> pushes the crashed recordings that the filter
  dropped. A filter given as a query string is evaluated by a library and is not
  covered.
\<close>

definition filterRecordings ::
  "recording list \<Rightarrow> (recording \<Rightarrow> bool) option \<Rightarrow> bool \<Rightarrow> recording list" where
  "filterRecordings recordings flt includeCrashes =
     (case flt of
        None \<Rightarrow> recordings
      | Some f \<Rightarrow>
          filter f recordings @
          (if includeCrashes
           then filter (\<lambda>r. status r = crashed \<and> \<not> f r) recordings
           else []))"

definition listRecording :: "recording \<Rightarrow> recording" where
  "listRecording r = r\<lparr>buildId := None, crashData := None\<rparr>"

record listOptions =
  opt_all :: bool
  opt_filter :: "(recording \<Rightarrow> bool) option"
  opt_includeCrashes :: bool

definition listAllRecordings :: "platform \<Rightarrow> listOptions \<Rightarrow> world \<Rightarrow> error + recording list" where
  "listAllRecordings P opts w =
     (case readRecordings P False w of
        Inl e \<Rightarrow> Inl e
      | Inr recordings \<Rightarrow>
          if opt_all opts then
            Inr (map listRecording
                   (filterRecordings recordings (opt_filter opts) (opt_includeCrashes opts)))
          else
            (let uploadableRecordings =
                   filter (\<lambda>r. status r \<in> {onDisk, startedWrite, crashed}) recordings
             in Inr (map listRecording
                       (filterRecordings uploadableRecordings (opt_filter opts)
                          (opt_includeCrashes opts)))))"

fun statusName :: "status \<Rightarrow> string" where
  "statusName unknown = ''unknown''"
| "statusName startedWrite = ''startedWrite''"
| "statusName onDisk = ''onDisk''"
| "statusName startedUpload = ''startedUpload''"
| "statusName uploaded = ''uploaded''"
| "statusName unusable = ''unusable''"
| "statusName crashed = ''crashed''"
| "statusName crashUploaded = ''crashUploaded''"

definition uploadSkipReason :: "recording \<Rightarrow> string option" where
  "uploadSkipReason r =
     (if status r \<notin> {onDisk, startedWrite, startedUpload, crashed} then
        Some (''wrong recording status '' @ statusName (status r))
      else if \<not> truthyStr (path r) \<and> status r \<noteq> crashed then
        Some ''recording not saved to disk''
      else None)"

subsection \<open>Events\<close>

definition emptyObject :: logEntry where
  "emptyObject =
     \<lparr> obj_kind = None, obj_id = None, obj_timestamp = None, obj_buildId = None,
       obj_metadata = None, obj_path = None, obj_server = None, obj_recordingId = None,
       obj_reason = None, obj_data = None, obj_baseURL = None,
       obj_targetContentHash = None, obj_targetURLHash = None,
       obj_targetMapURLHash = None, obj_parentId = None, obj_parentOffset = None \<rparr>"

text \<open>
  \<^verbatim>\<open>addRecordingEvent\<close>: the event \<^verbatim>\<open>{ kind, id, timestamp: Date.now(), ...tags }\<close>
  is pushed after the lines read from the file, and the file is written again.
\<close>

definition addRecordingEvent ::
  "platform \<Rightarrow> int \<Rightarrow> string \<Rightarrow> string option \<Rightarrow> (logEntry \<Rightarrow> logEntry) \<Rightarrow> world \<Rightarrow> world" where
  "addRecordingEvent P now kind ident tags w =
     (let event = tags (emptyObject\<lparr>obj_kind := Some kind, obj_id := ident,
                                     obj_timestamp := Some now\<rparr>)
      in writeRecordingFile (readRecordingFile w @ [JSON_stringify P event]) w)"

subsection \<open>Asset files\<close>

text \<open>\<^verbatim>\<open>s.replace(/\.map$/, ".lookup")\<close>.\<close>

definition replaceMapSuffix :: "string \<Rightarrow> string" where
  "replaceMapSuffix s =
     (if 4 \<le> length s \<and> drop (length s - 4) s = ''.map''
      then take (length s - 4) s @ ''.lookup''
      else s)"

text \<open>
  The files pushed for one source map. \<^verbatim>\<open>sm.path.replace\<close> throws a
  \<^verbatim>\<open>TypeError\<close> when the entry carries no path.
\<close>

definition sourceMapAssetFiles :: "sourceMapEntry \<Rightarrow> error + string option list" where
  "sourceMapAssetFiles sm =
     (case sm_path sm of
        None \<Rightarrow> Inl TypeError
      | Some p \<Rightarrow> Inr ([Some p, Some (replaceMapSuffix p)] @ map os_path (originalSources sm)))"

text \<open>\<^verbatim>\<open>xs.flatMap(f)\<close> for an \<open>f\<close> that may throw.\<close>

fun flatMapE :: "('a \<Rightarrow> error + 'b list) \<Rightarrow> 'a list \<Rightarrow> error + 'b list" where
  "flatMapE f [] = Inr []"
| "flatMapE f (x # xs) =
     (case f x of
        Inl e \<Rightarrow> Inl e
      | Inr ys \<Rightarrow>
          (case flatMapE f xs of
             Inl e \<Rightarrow> Inl e
           | Inr zs \<Rightarrow> Inr (ys @ zs)))"

definition getRecordingAssetFiles :: "recording \<Rightarrow> error + string option list" where
  "getRecordingAssetFiles r =
     (case flatMapE sourceMapAssetFiles (sourcemaps r) of
        Inl e \<Rightarrow> Inl e
      | Inr fs \<Rightarrow> Inr ((if truthyStr (path r) then [path r] else []) @ fs))"

definition maybeRemoveAssetFile :: "string option \<Rightarrow> world \<Rightarrow> world" where
  "maybeRemoveAssetFile asset w =
     (case asset of
        None \<Rightarrow> w
      | Some p \<Rightarrow>
          if p \<noteq> [] \<and> files w p \<noteq> None
          then w\<lparr>files := (files w)(p := None)\<rparr>
          else w)"

text \<open>
  \<^verbatim>\<open>removeRecordingAssets(recording, opts)\<close>. Of \<^verbatim>\<open>opts\<close> only
  \<^verbatim>\<open>includeCrashes\<close> reaches \<^verbatim>\<open>listAllRecordings\<close> beside the directory; the
  filter is the one built here.
\<close>

definition removeRecordingAssets ::
  "platform \<Rightarrow> recording \<Rightarrow> bool \<Rightarrow> world \<Rightarrow> error + world" where
  "removeRecordingAssets P recording includeCrashes w =
     (case listAllRecordings P
             \<lparr> opt_all = False,
               opt_filter = Some (\<lambda>r. status r \<noteq> uploaded \<and> status r \<noteq> crashUploaded \<and>
                                      recId r \<noteq> recId recording),
               opt_includeCrashes = includeCrashes \<rparr> w of
        Inl e \<Rightarrow> Inl e
      | Inr localRecordings \<Rightarrow>
          (case flatMapE getRecordingAssetFiles localRecordings of
             Inl e \<Rightarrow> Inl e
           | Inr localRecordingAssetFiles \<Rightarrow>
               (case getRecordingAssetFiles recording of
                  Inl e \<Rightarrow> Inl e
                | Inr assetFiles \<Rightarrow>
                    Inr (foldl (\<lambda>w' file.
                                  if file \<notin> set localRecordingAssetFiles
                                  then maybeRemoveAssetFile file w'
                                  else w')
                           w assetFiles))))"

subsection \<open>Removing a recording\<close>



subsection \<open>Retrying with back-off\<close>

text \<open>
  \<^verbatim>\<open>retry\<close>. \<open>asyncFunction n\<close> is what the call of the operation does after
  \<open>n\<close> earlier calls: \<open>Inr\<close> its value, \<open>Inl\<close> the error it throws. The events
  record, in order, each call of the operation, each call of \<^verbatim>\<open>onFail\<close> and each
  \<^verbatim>\<open>wait\<close> with its delay in milliseconds. \<open>currentAttempt\<close> is the counter at
  the head of the loop; after \<^verbatim>\<open>currentAttempt++\<close> it is \<open>currentAttempt + 1\<close>.
\<close>

datatype 'e thrown = Rethrown 'e | Unreachable

datatype 'e retryEvent = Invoked | Failed 'e int | Waited real

function retryLoop ::
  "(nat \<Rightarrow> 'e + 'a) \<Rightarrow> (int \<Rightarrow> real) \<Rightarrow> int \<Rightarrow> int \<Rightarrow> nat \<Rightarrow> ('e thrown + 'a) \<times> 'e retryEvent list" where
  "retryLoop asyncFunction backOffStrategy maxAttempts currentAttempt n =
     (if currentAttempt \<le> maxAttempts then
        (case asyncFunction n of
           Inr v \<Rightarrow> (Inr v, [Invoked])
         | Inl err \<Rightarrow>
             if currentAttempt + 1 = maxAttempts then
               (Inl (Rethrown err), [Invoked, Failed err (currentAttempt + 1)])
             else
               (case retryLoop asyncFunction backOffStrategy maxAttempts
                       (currentAttempt + 1) (Suc n) of
                  (res, evs) \<Rightarrow>
                    (res, [Invoked, Failed err (currentAttempt + 1),
                           Waited (backOffStrategy (currentAttempt + 1))] @ evs)))
      else (Inl Unreachable, []))"
  by pat_completeness auto
termination
  by (relation "measure (\<lambda>(f, b, maxAttempts, currentAttempt, n).
                   nat (maxAttempts + 1 - currentAttempt))") auto

declare retryLoop.simps [simp del]

definition retry ::
  "(nat \<Rightarrow> 'e + 'a) \<Rightarrow> (int \<Rightarrow> real) \<Rightarrow> int option \<Rightarrow> ('e thrown + 'a) \<times> 'e retryEvent list" where
  "retry asyncFunction backOffStrategy maxAttempts =
     retryLoop asyncFunction backOffStrategy
       (case maxAttempts of None \<Rightarrow> 5 | Some m \<Rightarrow> m) 0 0"

text \<open>
  \<^verbatim>\<open>jitter\<close> is \<^verbatim>\<open>Math.random() * 100\<close>; \<open>random i\<close> is the number that
  \<^verbatim>\<open>Math.random()\<close> returns in the back-off of iteration \<open>i\<close>. The back-off is
  asked for iterations from 1 up, where \<^verbatim>\<open>2 ** iteration\<close> is a power of a
  natural number. Delays are real numbers.
\<close>

definition jitter :: "real \<Rightarrow> real" where
  "jitter u = u * 100"

definition retryWithExponentialBackoff ::
  "(nat \<Rightarrow> 'e + 'a) \<Rightarrow> (int \<Rightarrow> real) \<Rightarrow> int option \<Rightarrow> ('e thrown + 'a) \<times> 'e retryEvent list" where
  "retryWithExponentialBackoff asyncFunction random maxTries =
     retry asyncFunction (\<lambda>iteration. 2 ^ nat iteration * 100 + jitter (random iteration))
       maxTries"

definition retryWithLinearBackoff ::
  "(nat \<Rightarrow> 'e + 'a) \<Rightarrow> (int \<Rightarrow> real) \<Rightarrow> int option \<Rightarrow> ('e thrown + 'a) \<times> 'e retryEvent list" where
  "retryWithLinearBackoff asyncFunction random maxTries =
     retry asyncFunction (\<lambda>iteration. 100 + jitter (random iteration)) maxTries"

fun isInvoked :: "'e retryEvent \<Rightarrow> bool" where
  "isInvoked Invoked = True"
| "isInvoked _ = False"

definition invocations :: "'e retryEvent list \<Rightarrow> nat" where
  "invocations evs = length (filter isInvoked evs)"

fun delayOf :: "'e retryEvent \<Rightarrow> real option" where
  "delayOf (Waited d) = Some d"
| "delayOf _ = None"

definition delays :: "'e retryEvent list \<Rightarrow> real list" where
  "delays evs = List.map_filter delayOf evs"

subsection \<open>The remote service\<close>

text \<open>
  The calls made on the \<^verbatim>\<open>ReplayClient\<close>, in the order they are issued. The
  service is an oracle: each answer is a function of the calls made so far, the call
  being answered last. \<open>None\<close> is a call that resolves, \<open>Some e\<close> or \<open>Inl e\<close>
  one that rejects with \<open>e\<close>. \<open>dateNow\<close> is \<^verbatim>\<open>Date.now()\<close> and
  \<open>readToken\<close> the token that \<^verbatim>\<open>readToken\<close> finds, which never throws.
  The service also decides which of several pending calls is answered first:
  \<open>arrival\<close> gives, from the calls made so far and the indices of the items in
  flight, the position of the one that settles next.
\<close>

datatype call =
    InitConnection string "string option"
  | ReportCrash jvalue
  | BuildRecordingMetadata metadata
  | BeginRecordingUpload "string option" "string option" nat
  | SetRecordingMetadata string metadata
  | UploadRecording string string nat
  | EndRecordingUpload "string option"
  | UploadSourcemap string sourceMapEntry string
  | UploadOriginalSource string string originalSource string
  | CloseConnection

record remote =
  dateNow :: "call list \<Rightarrow> int"
  readToken :: "string option"
  initConnection :: "call list \<Rightarrow> bool"
  connectionReportCrash :: "call list \<Rightarrow> error option"
  buildRecordingMetadata :: "call list \<Rightarrow> error + metadata"
  connectionBeginRecordingUpload :: "call list \<Rightarrow> error + string \<times> string"
  setRecordingMetadata :: "call list \<Rightarrow> error option"
  uploadRecording :: "call list \<Rightarrow> error option"
  connectionEndRecordingUpload :: "call list \<Rightarrow> error option"
  connectionUploadSourcemap :: "call list \<Rightarrow> error + string"
  connectionUploadOriginalSource :: "call list \<Rightarrow> error option"
  arrival :: "call list \<Rightarrow> nat list \<Rightarrow> nat"

type_synonym ustate = "world \<times> call list"

text \<open>
  What an upload returns: \<^verbatim>\<open>null\<close>, or a value that is a string or
  \<^verbatim>\<open>undefined\<close> (the \<^verbatim>\<open>id\<close> of a recording created without one).
\<close>

datatype uploadResult = Null | Returned "string option"

subsection \<open>Running items with bounded concurrency\<close>

text \<open>
  \<^verbatim>\<open>pMap(items, mapper, { concurrency, stopOnError: false })\<close> of the library
  \<^verbatim>\<open>p-map\<close>. The library is not among the sources; the model follows its
  algorithm. A concurrency that is not an integer from 1 up is rejected with a
  \<^verbatim>\<open>TypeError\<close> before any item runs. Otherwise the mapper is called on the
  items in order for as long as fewer than \<^verbatim>\<open>concurrency\<close> calls are pending,
  and each call that settles lets the next item start. An item that rejects adds its
  error and the others go on. The call rejects with the aggregate of the errors, in
  the order they arrived, when there is one, and resolves to the values by index
  otherwise.

  A call of the mapper has two parts: \<open>mapperHead\<close> is what it does when it is
  called, up to the first answer it has to wait for, and \<open>mapperRest\<close> is what it
  does when that answer has arrived. A mapper that throws or returns before it
  waits settles at once (\<open>Immediate\<close>). The events record every call of the mapper
  (\<open>Started\<close>, with the index of the item) and every settlement (\<open>Settled\<close>, with
  the index and the outcome), in the order they happen.
\<close>

datatype 'b poolEvent = Started nat | Settled nat "error + 'b"

datatype ('p, 'b) begun = Immediate "error + 'b" | Pending 'p

text \<open>\<open>without k xs\<close> is \<open>xs\<close> with the entry at position \<open>k\<close> taken out.\<close>

definition without :: "nat \<Rightarrow> 'a list \<Rightarrow> 'a list" where
  "without k xs = take k xs @ drop (Suc k) xs"

text \<open>
  One of the calls in flight settles. Which one is not decided by the program:
  \<open>pick\<close> gives its position from the state and the indices in flight.
\<close>

definition settleNext ::
  "('s \<Rightarrow> nat list \<Rightarrow> nat) \<Rightarrow> ('p \<Rightarrow> 's \<Rightarrow> (error + 'b) \<times> 's) \<Rightarrow>
   (nat \<times> 'a) list \<Rightarrow> (nat \<times> 'p) list \<Rightarrow> 'b poolEvent list \<Rightarrow> 's \<Rightarrow>
   ((nat \<times> 'a) list \<times> (nat \<times> 'p) list \<times> 'b poolEvent list \<times> 's) option" where
  "settleNext pick mapperRest todo inflight evs st =
     (if inflight = [] then None
      else
        (let k = pick st (map fst inflight) mod length inflight in
         case inflight ! k of
           (i, p) \<Rightarrow>
             (case mapperRest p st of
                (out, st') \<Rightarrow> Some (todo, without k inflight, evs @ [Settled i out], st'))))"

text \<open>
  One step of the pool: the next item starts when fewer than \<open>concurrency\<close> calls
  are in flight, otherwise a call in flight settles. The pool is done when there is
  neither.
\<close>

definition poolStep ::
  "('s \<Rightarrow> nat list \<Rightarrow> nat) \<Rightarrow> ('a \<Rightarrow> 's \<Rightarrow> ('p, 'b) begun \<times> 's) \<Rightarrow>
   ('p \<Rightarrow> 's \<Rightarrow> (error + 'b) \<times> 's) \<Rightarrow> nat \<Rightarrow>
   (nat \<times> 'a) list \<Rightarrow> (nat \<times> 'p) list \<Rightarrow> 'b poolEvent list \<Rightarrow> 's \<Rightarrow>
   ((nat \<times> 'a) list \<times> (nat \<times> 'p) list \<times> 'b poolEvent list \<times> 's) option" where
  "poolStep pick mapperHead mapperRest concurrency todo inflight evs st =
     (case todo of
        [] \<Rightarrow> settleNext pick mapperRest todo inflight evs st
      | (i, x) # todo' \<Rightarrow>
          if length inflight < concurrency then
            (case mapperHead x st of
               (Immediate out, st') \<Rightarrow> Some (todo', inflight, evs @ [Started i, Settled i out], st')
             | (Pending p, st') \<Rightarrow> Some (todo', inflight @ [(i, p)], evs @ [Started i], st'))
          else settleNext pick mapperRest todo inflight evs st)"

function runPool ::
  "('s \<Rightarrow> nat list \<Rightarrow> nat) \<Rightarrow> ('a \<Rightarrow> 's \<Rightarrow> ('p, 'b) begun \<times> 's) \<Rightarrow>
   ('p \<Rightarrow> 's \<Rightarrow> (error + 'b) \<times> 's) \<Rightarrow> nat \<Rightarrow>
   (nat \<times> 'a) list \<Rightarrow> (nat \<times> 'p) list \<Rightarrow> 'b poolEvent list \<Rightarrow> 's \<Rightarrow>
   'b poolEvent list \<times> 's" where
  "runPool pick mapperHead mapperRest concurrency todo inflight evs st =
     (case poolStep pick mapperHead mapperRest concurrency todo inflight evs st of
        None \<Rightarrow> (evs, st)
      | Some (todo', inflight', evs', st') \<Rightarrow>
          runPool pick mapperHead mapperRest concurrency todo' inflight' evs' st')"
  by pat_completeness auto
termination
  apply (relation "measure (\<lambda>(pick, mapperHead, mapperRest, concurrency, todo, inflight, evs, st).
                   2 * length todo + length inflight)")
   apply simp
  subgoal premises prems for pick mapperHead mapperRest concurrency todo inflight evs st x2 todo' y inflight' ya evs' st'
  proof -
    from prems have s: "poolStep pick mapperHead mapperRest concurrency todo inflight evs st =
                          Some (todo', inflight', evs', st')" by simp
    have shorter: "inflight \<noteq> [] \<Longrightarrow>
       length (without (pick st (map fst inflight) mod length inflight) inflight) < length inflight"
    proof -
      assume "inflight \<noteq> []"
      then have "pick st (map fst inflight) mod length inflight < length inflight" by simp
      then show ?thesis unfolding without_def by simp
    qed
    from s have "2 * length todo' + length inflight' < 2 * length todo + length inflight"
      using shorter
      by (auto simp: poolStep_def settleNext_def Let_def
               split: list.splits if_splits prod.splits begun.splits)
    then show ?thesis by simp
  qed
  done

declare runPool.simps [simp del]

text \<open>
  The settlements of a run in the order they happened, the indices started, and
  the errors and the values among outcomes.
\<close>

fun outcomes :: "'b poolEvent list \<Rightarrow> (nat \<times> (error + 'b)) list" where
  "outcomes [] = []"
| "outcomes (Started i # evs) = outcomes evs"
| "outcomes (Settled i out # evs) = (i, out) # outcomes evs"

fun started :: "'b poolEvent list \<Rightarrow> nat list" where
  "started [] = []"
| "started (Started i # evs) = i # started evs"
| "started (Settled i out # evs) = started evs"

fun rejections :: "(error + 'b) list \<Rightarrow> error list" where
  "rejections [] = []"
| "rejections (Inl e # outs) = e # rejections outs"
| "rejections (Inr v # outs) = rejections outs"

fun resolutions :: "(error + 'b) list \<Rightarrow> 'b list" where
  "resolutions [] = []"
| "resolutions (Inl e # outs) = resolutions outs"
| "resolutions (Inr v # outs) = v # resolutions outs"



definition pMap ::
  "int \<Rightarrow> ('s \<Rightarrow> nat list \<Rightarrow> nat) \<Rightarrow> ('a \<Rightarrow> 's \<Rightarrow> ('p, 'b) begun \<times> 's) \<Rightarrow>
   ('p \<Rightarrow> 's \<Rightarrow> (error + 'b) \<times> 's) \<Rightarrow> 'a list \<Rightarrow> 's \<Rightarrow>
   (error + 'b list) \<times> 'b poolEvent list \<times> 's" where
  "pMap concurrency pick mapperHead mapperRest items st =
     (if concurrency < 1 then (Inl TypeError, [], st)
      else
        (case runPool pick mapperHead mapperRest (nat concurrency)
                (List.enumerate 0 items) [] [] st of
           (evs, st') \<Rightarrow>
             ((if rejections (map snd (outcomes evs)) \<noteq> []
               then Inl (AggregateError (rejections (map snd (outcomes evs))))
               else Inr (resolutions (map snd (sort_key fst (outcomes evs))))),
              evs, st')))"

subsection \<open>Uploading a crash report\<close>

text \<open>
  The \<^verbatim>\<open>Promise.all\<close> over \<^verbatim>\<open>crashData.map\<close>: every report is issued, in
  order, before any of them is awaited; the errors are those of the reports that
  reject.
\<close>

fun reportAll :: "remote \<Rightarrow> call list \<Rightarrow> jvalue list \<Rightarrow> error list \<times> call list" where
  "reportAll R h [] = ([], h)"
| "reportAll R h (d # ds) =
     (case reportAll R (h @ [ReportCrash d]) ds of
        (errs, h') \<Rightarrow>
          ((case connectionReportCrash R (h @ [ReportCrash d]) of
              None \<Rightarrow> []
            | Some e \<Rightarrow> [e]) @ errs, h'))"

definition recordingMetadataMarker :: "recording \<Rightarrow> jvalue" where
  "recordingMetadataMarker recording =
     VObj [(''kind'', VStr ''recordingMetadata''),
           (''recordingId'', (case recId recording of
                                None \<Rightarrow> VUndefined
                              | Some i \<Rightarrow> VStr i))]"

definition doUploadCrash ::
  "platform \<Rightarrow> remote \<Rightarrow> string \<Rightarrow> recording \<Rightarrow> string option \<Rightarrow> ustate \<Rightarrow> (error + unit) \<times> ustate" where
  "doUploadCrash P R srv recording apiKey st =
     (case st of (w, h) \<Rightarrow>
        if \<not> initConnection R (h @ [InitConnection srv apiKey]) then
          (Inr (), (w, h @ [InitConnection srv apiKey]))
        else
          (case reportAll R (h @ [InitConnection srv apiKey])
                  ((case crashData recording of None \<Rightarrow> [] | Some ds \<Rightarrow> ds) @
                   [recordingMetadataMarker recording]) of
             (e # _, h') \<Rightarrow> (Inl e, (w, h'))
           | ([], h') \<Rightarrow>
               (Inr (),
                (addRecordingEvent P (dateNow R h') ''crashUploaded'' (recId recording)
                   (\<lambda>ev. ev\<lparr>obj_server := Some srv\<rparr>) w,
                 h' @ [CloseConnection]))))"

subsection \<open>Uploading a recording\<close>

text \<open>
  Modelled from the spec: \<^verbatim>\<open>exponentialBackoffRetry\<close> of \<^verbatim>\<open>./utils\<close> is not
  among the sources. The specification gives the retry of a byte transfer a capped
  attempt count of 5 and lets the error of the last attempt propagate, which is the
  loop \<open>retry\<close> at its default. The result comes with the number of calls made.
\<close>

definition exponentialBackoffRetry :: "(nat \<Rightarrow> error + unit) \<Rightarrow> (error + unit) \<times> nat" where
  "exponentialBackoffRetry asyncFunction =
     (case retry asyncFunction (\<lambda>iteration. 2 ^ nat iteration * 100) None of
        (res, evs) \<Rightarrow>
          ((case res of
              Inl (Rethrown e) \<Rightarrow> Inl e
            | Inl Unreachable \<Rightarrow> Inl ShouldBeUnreachable
            | Inr v \<Rightarrow> Inr v),
           invocations evs))"

text \<open>
  The mapper of the inner \<^verbatim>\<open>pMap\<close>, over the original sources of a source
  map. It reads the file, which throws when there is no path or no such file, and
  issues the upload; the outcome is the answer to that call.
\<close>

definition originalSourceHead ::
  "remote \<Rightarrow> world \<Rightarrow> string \<Rightarrow> string \<Rightarrow> originalSource \<Rightarrow> call list \<Rightarrow>
     (error option, unit) begun \<times> call list" where
  "originalSourceHead R w rid smid src h =
     (case os_path src of
        None \<Rightarrow> (Immediate (Inl TypeError), h)
      | Some p \<Rightarrow>
          (case files w p of
             None \<Rightarrow> (Immediate (Inl IOError), h)
           | Some contents \<Rightarrow>
               (Pending (connectionUploadOriginalSource R
                           (h @ [UploadOriginalSource rid smid src contents])),
                h @ [UploadOriginalSource rid smid src contents])))"

definition originalSourceRest :: "error option \<Rightarrow> call list \<Rightarrow> (error + unit) \<times> call list" where
  "originalSourceRest answer h =
     ((case answer of None \<Rightarrow> Inr () | Some e \<Rightarrow> Inl e), h)"

text \<open>
  The mapper of the outer \<^verbatim>\<open>pMap\<close>, over the source maps of the recording:
  everything it throws is caught and logged. It reads the file and issues the
  upload of the source map; when the answer is the id of the source map, the
  original sources are uploaded with the concurrency 5. The uploads of the original
  sources of one source map are made in one step, when the upload of the source map
  has been answered: they are not interleaved with the answers to other source maps.
\<close>

definition sourcemapHead ::
  "remote \<Rightarrow> world \<Rightarrow> string \<Rightarrow> sourceMapEntry \<Rightarrow> call list \<Rightarrow>
     (sourceMapEntry \<times> (error + string), unit) begun \<times> call list" where
  "sourcemapHead R w rid sm h =
     (case (case sm_path sm of None \<Rightarrow> None | Some p \<Rightarrow> files w p) of
        None \<Rightarrow> (Immediate (Inr ()), h)
      | Some contents \<Rightarrow>
          (Pending (sm, connectionUploadSourcemap R (h @ [UploadSourcemap rid sm contents])),
           h @ [UploadSourcemap rid sm contents]))"

definition sourcemapRest ::
  "remote \<Rightarrow> world \<Rightarrow> string \<Rightarrow> sourceMapEntry \<times> (error + string) \<Rightarrow> call list \<Rightarrow>
     (error + unit) \<times> call list" where
  "sourcemapRest R w rid pending h =
     (case pending of
        (sm, Inl e) \<Rightarrow> (Inr (), h)
      | (sm, Inr smid) \<Rightarrow>
          (Inr (),
           snd (snd (pMap 5 (arrival R) (originalSourceHead R w rid smid) originalSourceRest
                       (originalSources sm) h))))"

definition doUploadRecording ::
  "platform \<Rightarrow> remote \<Rightarrow> string \<Rightarrow> recording \<Rightarrow> string option \<Rightarrow> bool \<Rightarrow> ustate \<Rightarrow>
     (error + uploadResult) \<times> ustate" where
  "doUploadRecording P R srv recording apiKey0 removeAssets st =
     (case st of (w, h) \<Rightarrow>
      if status recording = uploaded \<and> truthyStr (recordingId recording) then
        (Inr (Returned (recordingId recording)), (w, h))
      else if uploadSkipReason recording \<noteq> None then
        (Inr Null, (w, h))
      else
        (let apiKey = (if truthyStr apiKey0 then apiKey0 else readToken R) in
         if status recording = crashed then
           (case doUploadCrash P R srv recording apiKey (w, h) of
              (Inl e, st') \<Rightarrow> (Inl e, st')
            | (Inr _, (w1, h1)) \<Rightarrow>
                if removeAssets then
                  (case removeRecordingAssets P recording False w1 of
                     Inl e \<Rightarrow> (Inl e, (w1, h1))
                   | Inr w2 \<Rightarrow> (Inr (Returned (recId recording)), (w2, h1)))
                else (Inr (Returned (recId recording)), (w1, h1)))
         else
           (case path recording of
              None \<Rightarrow> (Inl TypeError, (w, h))
            | Some p \<Rightarrow>
           (case files w p of
              None \<Rightarrow> (Inl IOError, (w, h))
            | Some contents \<Rightarrow>
           (let size = length contents;
                h1 = h @ [InitConnection srv apiKey] in
            if \<not> initConnection R h1 then (Inr Null, (w, h1))
            else
              (let h2 = h1 @ [BuildRecordingMetadata (metadata recording)] in
               case buildRecordingMetadata R h2 of
                 Inl e \<Rightarrow> (Inl e, (w, h2))
               | Inr md \<Rightarrow>
              (let h3 = h2 @ [BeginRecordingUpload (recId recording) (buildId recording) size] in
               case connectionBeginRecordingUpload R h3 of
                 Inl e \<Rightarrow> (Inl e, (w, h3))
               | Inr (rid, uploadLink) \<Rightarrow>
              (let h4 = h3 @ [SetRecordingMetadata rid md];
                   w1 = addRecordingEvent P (dateNow R h4) ''uploadStarted'' (recId recording)
                          (\<lambda>ev. ev\<lparr>obj_server := Some srv, obj_recordingId := Some rid\<rparr>) w in
               case exponentialBackoffRetry
                      (\<lambda>n. case uploadRecording R
                                   (h4 @ replicate (Suc n) (UploadRecording p uploadLink size)) of
                              None \<Rightarrow> Inr ()
                            | Some e \<Rightarrow> Inl e) of
                 (Inl e, n) \<Rightarrow>
                   (Inl e, (w1, h4 @ replicate n (UploadRecording p uploadLink size)))
               | (Inr _, n) \<Rightarrow>
              (let h5 = h4 @ replicate n (UploadRecording p uploadLink size) @
                          [EndRecordingUpload (recId recording)] in
               case connectionEndRecordingUpload R h5 of
                 Some e \<Rightarrow> (Inl e, (w1, h5))
               | None \<Rightarrow>
              (let h6 = snd (snd (pMap 10 (arrival R) (sourcemapHead R w1 rid) (sourcemapRest R w1 rid)
                                  (sourcemaps recording) h5)) in
               case (if removeAssets then removeRecordingAssets P recording False w1
                     else Inr w1) of
                 Inl e \<Rightarrow> (Inl e, (w1, h6))
               | Inr w2 \<Rightarrow>
                   (Inr (Returned (Some rid)),
                    (addRecordingEvent P (dateNow R h6) ''uploadFinished'' (recId recording)
                       (\<lambda>ev. ev) w2,
                     h6 @ [CloseConnection]))))))))))))"

subsection \<open>Uploading every recording\<close>





subsection \<open>The statuses of a recording during the fold\<close>

text \<open>
  \<open>statusHistory P k rs lines\<close> lists the status of the recording at index \<open>k\<close>
  after each line that the loop has gone through. \<open>lifecycleRank\<close> is the order
  \<^verbatim>\<open>unknown < startedWrite < onDisk < startedUpload < uploaded\<close> in which the
  statuses of a recording are expected to follow each other.
\<close>

fun lifecycleRank :: "status \<Rightarrow> nat option" where
  "lifecycleRank unknown = Some 0"
| "lifecycleRank startedWrite = Some 1"
| "lifecycleRank onDisk = Some 2"
| "lifecycleRank startedUpload = Some 3"
| "lifecycleRank uploaded = Some 4"
| "lifecycleRank _ = None"

definition nonDecreasing :: "status list \<Rightarrow> bool" where
  "nonDecreasing xs =
     sorted_wrt (\<lambda>a b. case (lifecycleRank a, lifecycleRank b) of
                          (Some m, Some n) \<Rightarrow> m \<le> n
                        | _ \<Rightarrow> True) xs"

fun statusHistory :: "platform \<Rightarrow> nat \<Rightarrow> recording list \<Rightarrow> string list \<Rightarrow> status list" where
  "statusHistory P k rs [] = []"
| "statusHistory P k rs (line # lines) =
     (case readLoop P rs [line] of
        Inl e \<Rightarrow> []
      | Inr rs' \<Rightarrow>
          (if k < length rs' then [status (rs' ! k)] else []) @ statusHistory P k rs' lines)"

subsection \<open>A platform given by a table\<close>

text \<open>
  The platform in which \<^verbatim>\<open>JSON.parse\<close> accepts the lines of a table, with the
  values given there, and rejects every other line; an event is written as the line
  \<^verbatim>\<open>E\<close>, and the default title generated is \<^verbatim>\<open>undefined\<close>.
\<close>

definition tablePlatform :: "(string \<times> json) list \<Rightarrow> platform" where
  "tablePlatform table =
     \<lparr> JSON_parse = map_of table,
       JSON_stringify = (\<lambda>ev. ''E''),
       generateDefaultTitle = (\<lambda>m. VUndefined) \<rparr>"

subsection \<open>A service that accepts every call\<close>

text \<open>
  The remote service in which every connection opens and every call resolves; a
  begun upload gets the remote id \<^verbatim>\<open>R1\<close>, and of the calls that are pending
  the oldest is answered first.
\<close>

definition reliableRemote :: remote where
  "reliableRemote =
     \<lparr> dateNow = (\<lambda>h. 0),
       readToken = Some ''token'',
       initConnection = (\<lambda>h. True),
       connectionReportCrash = (\<lambda>h. None),
       buildRecordingMetadata = (\<lambda>h. Inr []),
       connectionBeginRecordingUpload = (\<lambda>h. Inr (''R1'', ''https://upload/R1'')),
       setRecordingMetadata = (\<lambda>h. None),
       uploadRecording = (\<lambda>h. None),
       connectionEndRecordingUpload = (\<lambda>h. None),
       connectionUploadSourcemap = (\<lambda>h. Inr ''S1''),
       connectionUploadOriginalSource = (\<lambda>h. None),
       arrival = (\<lambda>h inflight. 0) \<rparr>"

subsection \<open>A log with a shared source map\<close>

text \<open>
  Two recordings \<^verbatim>\<open>A\<close> and \<^verbatim>\<open>B\<close>, each written to disk and each with a source
  map entry for the same file \<^verbatim>\<open>/m/x.map\<close>. The line \<^verbatim>\<open>b5\<close> records that an
  upload of \<^verbatim>\<open>B\<close> has started. \<open>sharedLogWorld lines\<close> is the disk with the log
  made of the given lines.
\<close>

definition sharedLogTable :: "(string \<times> json) list" where
  "sharedLogTable =
     [(''a1'', JObject (emptyObject\<lparr>obj_kind := Some ''createRecording'', obj_id := Some ''A''\<rparr>)),
      (''a2'', JObject (emptyObject\<lparr>obj_kind := Some ''writeStarted'', obj_id := Some ''A'',
                                   obj_path := Some ''/r/a''\<rparr>)),
      (''a3'', JObject (emptyObject\<lparr>obj_kind := Some ''writeFinished'', obj_id := Some ''A''\<rparr>)),
      (''a4'', JObject (emptyObject\<lparr>obj_kind := Some ''sourcemapAdded'', obj_id := Some ''s1'',
                                   obj_recordingId := Some ''A'',
                                   obj_path := Some ''/m/x.map''\<rparr>)),
      (''b1'', JObject (emptyObject\<lparr>obj_kind := Some ''createRecording'', obj_id := Some ''B''\<rparr>)),
      (''b2'', JObject (emptyObject\<lparr>obj_kind := Some ''writeStarted'', obj_id := Some ''B'',
                                   obj_path := Some ''/r/b''\<rparr>)),
      (''b3'', JObject (emptyObject\<lparr>obj_kind := Some ''writeFinished'', obj_id := Some ''B''\<rparr>)),
      (''b4'', JObject (emptyObject\<lparr>obj_kind := Some ''sourcemapAdded'', obj_id := Some ''s2'',
                                   obj_recordingId := Some ''B'',
                                   obj_path := Some ''/m/x.map''\<rparr>)),
      (''b5'', JObject (emptyObject\<lparr>obj_kind := Some ''uploadStarted'', obj_id := Some ''B'',
                                   obj_recordingId := Some ''R2''\<rparr>))]"

definition sharedLogPlatform :: platform where
  "sharedLogPlatform = tablePlatform sharedLogTable"

definition sharedLogWorld :: "string list \<Rightarrow> world" where
  "sharedLogWorld lines =
     \<lparr> logfile = Some (joinLines lines),
       files = map_of [(''/r/a'', ''a''), (''/r/b'', ''b''), (''/m/x.map'', ''{}'')] \<rparr>"

section \<open>Properties\<close>

subsection \<open>Unfolding on concrete inputs\<close>

text \<open>
  The definitions that evaluate the fold, the asset functions, an upload and a run
  of the pool.
\<close>

lemmas eval_defs = tablePlatform_def applyObject_def emptyObject_def newRecording_def updateStatus_def
  getBuildRuntime_def toStringArg_def matchAt_def isLineTerminator_def

lemmas asset_defs = removeRecordingAssets_def listAllRecordings_def filterRecordings_def
  listRecording_def getRecordingAssetFiles_def sourceMapAssetFiles_def maybeRemoveAssetFile_def
  replaceMapSuffix_def readRecordings_def readLines_def readRecordingFile_def hidden_def
  newSourceMap_def addOriginalSource_def



subsection \<open>The fold over the log\<close>

lemma readLoop_applyEntries:
  "readLoop P rs ls = applyEntries P rs (List.map_filter (JSON_parse P) ls)"
  by (induction ls arbitrary: rs) (auto simp: List.map_filter_simps split: option.splits sum.splits)

lemma applyEntries_append:
  "applyEntries P rs (xs @ ys) =
     (case applyEntries P rs xs of Inl e \<Rightarrow> Inl e | Inr rs' \<Rightarrow> applyEntries P rs' ys)"
  by (induction xs arbitrary: rs) (auto split: sum.splits)

lemma map_filter_append:
  "List.map_filter f (xs @ ys) = List.map_filter f xs @ List.map_filter f ys"
  by (simp add: List.map_filter_def)

lemma length_updateFirst [simp]: "length (updateFirst p f xs) = length xs"
  by (induction xs) auto

lemma updateFirst_nth:
  "k < length xs \<Longrightarrow> updateFirst p f xs ! k = xs ! k \<or> updateFirst p f xs ! k = f (xs ! k)"
  by (induction xs arbitrary: k) (auto simp: nth_Cons split: nat.splits)

lemma updateStatus_recId [simp]: "recId (updateStatus r s) = recId r"
  by (simp add: updateStatus_def)

lemma applyObject_shape:
  "applyObject P rs obj = rs @ [newRecording obj] \<or> applyObject P rs obj = rs \<or>
   (\<exists>p f. (\<forall>r. recId (f r) = recId r \<and>
                (status (f r) = status r \<or> (\<exists>s. status (f r) = status (updateStatus r s)))) \<and>
          applyObject P rs obj = updateFirst p f rs)"
proof -
  let ?Q = "\<lambda>x. x = rs @ [newRecording obj] \<or> x = rs \<or>
   (\<exists>p f. (\<forall>r. recId (f r) = recId r \<and>
                (status (f r) = status r \<or> (\<exists>s. status (f r) = status (updateStatus r s)))) \<and>
          x = updateFirst p f rs)"
  have ifQ: "\<And>c a b. \<lbrakk>c \<Longrightarrow> ?Q a; \<not> c \<Longrightarrow> ?Q b\<rbrakk> \<Longrightarrow> ?Q (if c then a else b)"
    by presburger
  have updQ: "\<And>p f. (\<And>r. recId (f r) = recId r \<and>
                (status (f r) = status r \<or> (\<exists>s. status (f r) = status (updateStatus r s))))
       \<Longrightarrow> ?Q (updateFirst p f rs)"
    by blast
  show ?thesis
    unfolding applyObject_def Let_def
    apply (rule ifQ, simp)
    apply (rule ifQ, rule updQ, simp add: addMetadata_def Let_def)
    apply (rule ifQ, rule updQ, rule conjI, simp, rule disjI2, rule exI[of _ startedWrite], simp)
    apply (rule ifQ, rule updQ, rule conjI, simp, rule disjI2, rule exI[of _ onDisk], simp)
    apply (rule ifQ, rule updQ, rule conjI, simp, rule disjI2, rule exI[of _ startedUpload], simp)
    apply (rule ifQ, rule updQ, rule conjI, simp, rule disjI2, rule exI[of _ uploaded], simp)
    apply (rule ifQ, rule updQ, rule conjI, simp, rule disjI2, rule exI[of _ unusable], simp)
    apply (rule ifQ, rule updQ, rule conjI, simp, rule disjI2, rule exI[of _ crashed], simp)
    apply (rule ifQ, rule updQ, simp add: pushCrashData_def Let_def)
    apply (rule ifQ, rule updQ, rule conjI, simp, rule disjI2, rule exI[of _ crashUploaded], simp)
    apply (rule ifQ, rule updQ, simp)
    apply (rule ifQ, rule updQ, simp add: addOriginalSource_def)
    apply simp
    done
qed

lemma applyObject_step:
  assumes "k < length rs"
  shows "k < length (applyObject P rs obj) \<and>
         recId (applyObject P rs obj ! k) = recId (rs ! k) \<and>
         (status (applyObject P rs obj ! k) = status (rs ! k) \<or>
          (\<exists>s. status (applyObject P rs obj ! k) = status (updateStatus (rs ! k) s)))"
  using applyObject_shape[of P rs obj] updateFirst_nth[OF assms] assms
  by (elim disjE exE conjE) (simp add: nth_append, simp, metis length_updateFirst)

lemma updateStatus_sinks:
  "(status r = unusable \<longrightarrow> status (updateStatus r s) = unusable) \<and>
   (status r = crashUploaded \<longrightarrow> status (updateStatus r s) = crashUploaded) \<and>
   (status r = crashed \<longrightarrow>
      status (updateStatus r s) = crashed \<or> status (updateStatus r s) = crashUploaded)"
  by (simp add: updateStatus_def)

lemma applyEntries_sinks:
  assumes "applyEntries P rs objs = Inr rs'" and "k < length rs"
  shows "k < length rs' \<and> recId (rs' ! k) = recId (rs ! k) \<and>
         (status (rs ! k) = unusable \<longrightarrow> status (rs' ! k) = unusable) \<and>
         (status (rs ! k) = crashUploaded \<longrightarrow> status (rs' ! k) = crashUploaded) \<and>
         (status (rs ! k) = crashed \<longrightarrow>
            status (rs' ! k) = crashed \<or> status (rs' ! k) = crashUploaded)"
  using assms
proof (induction objs arbitrary: rs)
  case Nil
  then show ?case by simp
next
  case (Cons obj objs)
  show ?case
  proof (cases obj)
    case JNull
    with Cons.prems show ?thesis by simp
  next
    case (JObject e)
    let ?mid = "applyObject P rs e"
    from Cons.prems JObject have rest: "applyEntries P ?mid objs = Inr rs'" by simp
    from applyObject_step[OF Cons.prems(2), of P e]
    have k: "k < length ?mid" and idm: "recId (?mid ! k) = recId (rs ! k)"
      and st: "status (?mid ! k) = status (rs ! k) \<or>
          (\<exists>s. status (?mid ! k) = status (updateStatus (rs ! k) s))"
      by blast+
    from Cons.IH[OF rest k] idm st updateStatus_sinks[of "rs ! k"]
    show ?thesis by metis
  qed
qed

text \<open>
  Claim C1, as the code has it. Once the status of a recording is \<open>unusable\<close> or
  \<open>crashUploaded\<close>, no later line of the log changes it, and once it is
  \<open>crashed\<close> a later line can only change it to \<open>crashUploaded\<close>: for a state
  \<open>rs\<close> that the loop reaches after the lines \<open>ls\<close> and the state \<open>rs'\<close> it
  reaches after any further lines \<open>ls'\<close>, the recording at index \<open>k\<close> is still the
  recording of the same id and its status has stayed in the sink. Outside of these three
  statuses \<open>updateStatus\<close> assigns the status it is given, whatever the current one.
\<close>

theorem status_sinks:
  assumes "readLoop P [] ls = Inr rs" and "readLoop P [] (ls @ ls') = Inr rs'"
    and "k < length rs"
  shows "k < length rs' \<and> recId (rs' ! k) = recId (rs ! k) \<and>
         (status (rs ! k) = unusable \<longrightarrow> status (rs' ! k) = unusable) \<and>
         (status (rs ! k) = crashUploaded \<longrightarrow> status (rs' ! k) = crashUploaded) \<and>
         (status (rs ! k) = crashed \<longrightarrow>
            status (rs' ! k) = crashed \<or> status (rs' ! k) = crashUploaded) \<and>
         (status r \<noteq> unusable \<and> status r \<noteq> crashUploaded \<and> status r \<noteq> crashed \<longrightarrow>
            status (updateStatus r s) = s)"
proof -
  from assms(1,2) have "applyEntries P rs (List.map_filter (JSON_parse P) ls') = Inr rs'"
    by (simp add: readLoop_applyEntries map_filter_append applyEntries_append)
  from applyEntries_sinks[OF this assms(3)] show ?thesis
    by (simp add: updateStatus_def)
qed

text \<open>
  Claim C1 as stated fails: the statuses of a recording need not follow the order
  \<^verbatim>\<open>unknown < startedWrite < onDisk < startedUpload < uploaded\<close>. A recording whose
  write has started can be uploaded; when the writer then logs \<^verbatim>\<open>writeFinished\<close>,
  the status goes from \<open>uploaded\<close> back to \<open>onDisk\<close>.
\<close>

theorem status_order_counterexample:
  "statusHistory
     (tablePlatform
         [(''c'', JObject (emptyObject\<lparr>obj_kind := Some ''createRecording'', obj_id := Some ''A''\<rparr>)),
          (''w'', JObject (emptyObject\<lparr>obj_kind := Some ''writeStarted'', obj_id := Some ''A'',
                                      obj_path := Some ''/tmp/a''\<rparr>)),
          (''u'', JObject (emptyObject\<lparr>obj_kind := Some ''uploadStarted'', obj_id := Some ''A'',
                                      obj_recordingId := Some ''R1''\<rparr>)),
          (''v'', JObject (emptyObject\<lparr>obj_kind := Some ''uploadFinished'', obj_id := Some ''A''\<rparr>)),
          (''f'', JObject (emptyObject\<lparr>obj_kind := Some ''writeFinished'', obj_id := Some ''A''\<rparr>))])
     0 [] [''c'', ''w'', ''u'', ''v'', ''f'']
   = [unknown, startedWrite, startedUpload, uploaded, onDisk] \<and>
   \<not> nonDecreasing (remdups_adj [unknown, startedWrite, startedUpload, uploaded, onDisk])"
  by (simp add: eval_defs nonDecreasing_def)

theorem status_sinks_witness:
  "status (projr (readLoop
     (tablePlatform
         [(''c'', JObject (emptyObject\<lparr>obj_kind := Some ''createRecording'', obj_id := Some ''A''\<rparr>)),
          (''x'', JObject (emptyObject\<lparr>obj_kind := Some ''recordingUnusable'', obj_id := Some ''A''\<rparr>)),
          (''f'', JObject (emptyObject\<lparr>obj_kind := Some ''writeFinished'', obj_id := Some ''A''\<rparr>))])
     [] ([''c'', ''x''] @ [''f''])) ! 0) = unusable \<and>
   status (projr (readLoop
     (tablePlatform
         [(''c'', JObject (emptyObject\<lparr>obj_kind := Some ''createRecording'', obj_id := Some ''A''\<rparr>)),
          (''k'', JObject (emptyObject\<lparr>obj_kind := Some ''crashed'', obj_id := Some ''A''\<rparr>)),
          (''u'', JObject (emptyObject\<lparr>obj_kind := Some ''crashUploaded'', obj_id := Some ''A''\<rparr>)),
          (''f'', JObject (emptyObject\<lparr>obj_kind := Some ''writeFinished'', obj_id := Some ''A''\<rparr>))])
     [] ([''c'', ''k'', ''u''] @ [''f''])) ! 0) = crashUploaded \<and>
   status (projr (readLoop
     (tablePlatform
         [(''c'', JObject (emptyObject\<lparr>obj_kind := Some ''createRecording'', obj_id := Some ''A''\<rparr>)),
          (''k'', JObject (emptyObject\<lparr>obj_kind := Some ''crashed'', obj_id := Some ''A''\<rparr>)),
          (''u'', JObject (emptyObject\<lparr>obj_kind := Some ''crashUploaded'', obj_id := Some ''A''\<rparr>)),
          (''f'', JObject (emptyObject\<lparr>obj_kind := Some ''writeFinished'', obj_id := Some ''A''\<rparr>))])
     [] ([''c'', ''k''] @ [''f'', ''u''])) ! 0) \<in> {crashed, crashUploaded} \<and>
   status (updateStatus (newRecording emptyObject) onDisk) = onDisk"
proof -
  let ?P = "tablePlatform
         [(''c'', JObject (emptyObject\<lparr>obj_kind := Some ''createRecording'', obj_id := Some ''A''\<rparr>)),
          (''x'', JObject (emptyObject\<lparr>obj_kind := Some ''recordingUnusable'', obj_id := Some ''A''\<rparr>)),
          (''f'', JObject (emptyObject\<lparr>obj_kind := Some ''writeFinished'', obj_id := Some ''A''\<rparr>))]"
  let ?Q = "tablePlatform
         [(''c'', JObject (emptyObject\<lparr>obj_kind := Some ''createRecording'', obj_id := Some ''A''\<rparr>)),
          (''k'', JObject (emptyObject\<lparr>obj_kind := Some ''crashed'', obj_id := Some ''A''\<rparr>)),
          (''u'', JObject (emptyObject\<lparr>obj_kind := Some ''crashUploaded'', obj_id := Some ''A''\<rparr>)),
          (''f'', JObject (emptyObject\<lparr>obj_kind := Some ''writeFinished'', obj_id := Some ''A''\<rparr>))]"
  have a1: "readLoop ?P [] [''c'', ''x''] = Inr (projr (readLoop ?P [] [''c'', ''x'']))"
    and a2: "readLoop ?P [] ([''c'', ''x''] @ [''f'']) =
               Inr (projr (readLoop ?P [] ([''c'', ''x''] @ [''f''])))"
    and a3: "0 < length (projr (readLoop ?P [] [''c'', ''x'']))"
    and a4: "status (projr (readLoop ?P [] [''c'', ''x'']) ! 0) = unusable"
    by (simp_all add: eval_defs)
  have b1: "readLoop ?Q [] [''c'', ''k'', ''u''] = Inr (projr (readLoop ?Q [] [''c'', ''k'', ''u'']))"
    and b2: "readLoop ?Q [] ([''c'', ''k'', ''u''] @ [''f'']) =
               Inr (projr (readLoop ?Q [] ([''c'', ''k'', ''u''] @ [''f''])))"
    and b3: "0 < length (projr (readLoop ?Q [] [''c'', ''k'', ''u'']))"
    and b4: "status (projr (readLoop ?Q [] [''c'', ''k'', ''u'']) ! 0) = crashUploaded"
    by (simp_all add: eval_defs)
  have c1: "readLoop ?Q [] [''c'', ''k''] = Inr (projr (readLoop ?Q [] [''c'', ''k'']))"
    and c2: "readLoop ?Q [] ([''c'', ''k''] @ [''f'', ''u'']) =
               Inr (projr (readLoop ?Q [] ([''c'', ''k''] @ [''f'', ''u''])))"
    and c3: "0 < length (projr (readLoop ?Q [] [''c'', ''k'']))"
    and c4: "status (projr (readLoop ?Q [] [''c'', ''k'']) ! 0) = crashed"
    by (simp_all add: eval_defs)
  have d: "status (newRecording emptyObject) \<noteq> unusable \<and>
           status (newRecording emptyObject) \<noteq> crashUploaded \<and>
           status (newRecording emptyObject) \<noteq> crashed"
    by (simp add: newRecording_def)
  from status_sinks[OF a1 a2 a3, of "newRecording emptyObject" onDisk] a4 d
  have 1: "status (projr (readLoop ?P [] ([''c'', ''x''] @ [''f''])) ! 0) = unusable"
    and 4: "status (updateStatus (newRecording emptyObject) onDisk) = onDisk"
    by blast+
  from status_sinks[OF b1 b2 b3] b4
  have 2: "status (projr (readLoop ?Q [] ([''c'', ''k'', ''u''] @ [''f''])) ! 0) = crashUploaded"
    by blast
  from status_sinks[OF c1 c2 c3] c4
  have 3: "status (projr (readLoop ?Q [] ([''c'', ''k''] @ [''f'', ''u''])) ! 0)
             \<in> {crashed, crashUploaded}"
    by blast
  from 1 2 3 4 show ?thesis by blast
qed

lemma readLines_entries:
  "List.map_filter (JSON_parse P) ls = List.map_filter (JSON_parse P) ls' \<Longrightarrow>
   readLines P includeHidden ls = readLines P includeHidden ls'"
  by (simp add: readLines_def readLoop_applyEntries)

text \<open>
  Claim C6. A log with a line that \<^verbatim>\<open>JSON.parse\<close> rejects is read as the log
  without that line: the recordings are the same, and so is the outcome when some
  other line makes the read throw. The other lines may be anything.
\<close>

theorem invalid_line_skipped:
  assumes "JSON_parse P bad = None"
    and "readRecordingFile w = xs @ bad # ys"
    and "readRecordingFile w' = xs @ ys"
  shows "readRecordings P includeHidden w = readRecordings P includeHidden w'"
proof -
  have "List.map_filter (JSON_parse P) (xs @ bad # ys) = List.map_filter (JSON_parse P) (xs @ ys)"
    using assms(1) by (simp add: map_filter_append List.map_filter_simps)
  then show ?thesis
    unfolding readRecordings_def assms(2,3) by (rule readLines_entries)
qed

theorem invalid_line_skipped_witness:
  "readRecordings
     (tablePlatform
         [(''c'', JObject (emptyObject\<lparr>obj_kind := Some ''createRecording'', obj_id := Some ''A''\<rparr>)),
          (''f'', JObject (emptyObject\<lparr>obj_kind := Some ''writeFinished'', obj_id := Some ''A''\<rparr>))]) False
     \<lparr> logfile = Some (''c'' @ [CHR 0x0A] @ ''{bad'' @ [CHR 0x0A] @ ''f''), files = map_of [] \<rparr>
   = readRecordings
     (tablePlatform
         [(''c'', JObject (emptyObject\<lparr>obj_kind := Some ''createRecording'', obj_id := Some ''A''\<rparr>)),
          (''f'', JObject (emptyObject\<lparr>obj_kind := Some ''writeFinished'', obj_id := Some ''A''\<rparr>))]) False
     \<lparr> logfile = Some (''c'' @ [CHR 0x0A] @ ''f''), files = map_of [] \<rparr>"
  by (rule invalid_line_skipped[where bad = "''{bad''" and xs = "[''c'']" and ys = "[''f'']"])
     (simp_all add: readRecordingFile_def tablePlatform_def)

text \<open>
  Claim C9. The recordings are a function of the sequence of entries that the lines
  of the log parse to: two reads of logs that hold the same entries in the same order,
  and so two reads of the same log, return the same recordings.
\<close>

theorem fold_deterministic:
  assumes "List.map_filter (JSON_parse P) (readRecordingFile w) =
           List.map_filter (JSON_parse P) (readRecordingFile w')"
  shows "readRecordings P includeHidden w = readRecordings P includeHidden w'"
  unfolding readRecordings_def using assms by (rule readLines_entries)

theorem fold_deterministic_witness:
  "readRecordings
     (tablePlatform
         [(''c'', JObject (emptyObject\<lparr>obj_kind := Some ''createRecording'', obj_id := Some ''A''\<rparr>)),
          (''f'', JObject (emptyObject\<lparr>obj_kind := Some ''writeFinished'', obj_id := Some ''A''\<rparr>))]) True
     \<lparr> logfile = Some (''c'' @ [CHR 0x0A] @ ''f'' @ [CHR 0x0A]), files = map_of [] \<rparr>
   = readRecordings
     (tablePlatform
         [(''c'', JObject (emptyObject\<lparr>obj_kind := Some ''createRecording'', obj_id := Some ''A''\<rparr>)),
          (''f'', JObject (emptyObject\<lparr>obj_kind := Some ''writeFinished'', obj_id := Some ''A''\<rparr>))]) True
     \<lparr> logfile = Some (''c'' @ [CHR 0x0A] @ ''f'' @ [CHR 0x0A]), files = map_of [(''/tmp/a'', ''x'')] \<rparr>"
  by (rule fold_deterministic) (simp add: readRecordingFile_def)

text \<open>
  Claim C7. A log whose entries are \<^verbatim>\<open>createRecording\<close> with the build
  \<^verbatim>\<open>2023-chromium-x\<close>, \<^verbatim>\<open>writeStarted\<close> with the path \<^verbatim>\<open>/tmp/a\<close>,
  \<^verbatim>\<open>writeFinished\<close>, \<^verbatim>\<open>uploadStarted\<close> with the remote id \<^verbatim>\<open>R1\<close> and
  \<^verbatim>\<open>uploadFinished\<close>, all for the id \<open>A\<close>, is read as exactly one recording,
  with status \<open>uploaded\<close>, remote id \<^verbatim>\<open>R1\<close> and runtime \<^verbatim>\<open>chromium\<close>.
\<close>

theorem scenario_uploaded:
  assumes "List.map_filter (JSON_parse P) (readRecordingFile w) =
     [JObject (emptyObject\<lparr>obj_kind := Some ''createRecording'', obj_id := Some A,
                           obj_timestamp := t1, obj_buildId := Some ''2023-chromium-x''\<rparr>),
      JObject (emptyObject\<lparr>obj_kind := Some ''writeStarted'', obj_id := Some A,
                           obj_timestamp := t2, obj_path := Some ''/tmp/a''\<rparr>),
      JObject (emptyObject\<lparr>obj_kind := Some ''writeFinished'', obj_id := Some A,
                           obj_timestamp := t3\<rparr>),
      JObject (emptyObject\<lparr>obj_kind := Some ''uploadStarted'', obj_id := Some A,
                           obj_timestamp := t4, obj_server := Some srv,
                           obj_recordingId := Some ''R1''\<rparr>),
      JObject (emptyObject\<lparr>obj_kind := Some ''uploadFinished'', obj_id := Some A,
                           obj_timestamp := t5\<rparr>)]"
  shows "readRecordings P includeHidden w =
     Inr [\<lparr> recId = Some A, createTime = t1, buildId = Some ''2023-chromium-x'',
            runtime = ''chromium'', metadata = [], sourcemaps = [], status = uploaded,
            path = Some ''/tmp/a'', server = Some srv, recordingId = Some ''R1'',
            unusableReason = None, crashData = None \<rparr>]"
  by (simp add: readRecordings_def readLines_def readLoop_applyEntries assms eval_defs hidden_def)

theorem scenario_uploaded_witness:
  "readRecordings
     (tablePlatform
         [(''1'', JObject (emptyObject\<lparr>obj_kind := Some ''createRecording'', obj_id := Some ''A'',
                           obj_timestamp := Some 1, obj_buildId := Some ''2023-chromium-x''\<rparr>)),
          (''2'', JObject (emptyObject\<lparr>obj_kind := Some ''writeStarted'', obj_id := Some ''A'',
                           obj_timestamp := Some 2, obj_path := Some ''/tmp/a''\<rparr>)),
          (''3'', JObject (emptyObject\<lparr>obj_kind := Some ''writeFinished'', obj_id := Some ''A'',
                           obj_timestamp := Some 3\<rparr>)),
          (''4'', JObject (emptyObject\<lparr>obj_kind := Some ''uploadStarted'', obj_id := Some ''A'',
                           obj_timestamp := Some 4, obj_server := Some ''wss://dispatch.replay.io'',
                           obj_recordingId := Some ''R1''\<rparr>)),
          (''5'', JObject (emptyObject\<lparr>obj_kind := Some ''uploadFinished'', obj_id := Some ''A'',
                           obj_timestamp := Some 5\<rparr>))]) False
     \<lparr> logfile = Some (''1'' @ [CHR 0x0A] @ ''2'' @ [CHR 0x0A] @ ''3'' @ [CHR 0x0A] @
                       ''4'' @ [CHR 0x0A] @ ''5'' @ [CHR 0x0A]),
       files = map_of [] \<rparr> =
     Inr [\<lparr> recId = Some ''A'', createTime = Some 1, buildId = Some ''2023-chromium-x'',
            runtime = ''chromium'', metadata = [], sourcemaps = [], status = uploaded,
            path = Some ''/tmp/a'', server = Some ''wss://dispatch.replay.io'',
            recordingId = Some ''R1'', unusableReason = None, crashData = None \<rparr>]"
  by (rule scenario_uploaded) (simp add: readRecordingFile_def List.map_filter_simps tablePlatform_def)

subsection \<open>Retrying with back-off\<close>

lemma retry_default_unfold:
  "retryWithExponentialBackoff f rnd None =
     (case f 0 of Inr v \<Rightarrow> (Inr v, [Invoked])
      | Inl e1 \<Rightarrow>
     (case f 1 of Inr v \<Rightarrow> (Inr v, [Invoked, Failed e1 1, Waited (200 + jitter (rnd 1)), Invoked])
      | Inl e2 \<Rightarrow>
     (case f 2 of Inr v \<Rightarrow> (Inr v, [Invoked, Failed e1 1, Waited (200 + jitter (rnd 1)),
                                     Invoked, Failed e2 2, Waited (400 + jitter (rnd 2)), Invoked])
      | Inl e3 \<Rightarrow>
     (case f 3 of Inr v \<Rightarrow> (Inr v, [Invoked, Failed e1 1, Waited (200 + jitter (rnd 1)),
                                     Invoked, Failed e2 2, Waited (400 + jitter (rnd 2)),
                                     Invoked, Failed e3 3, Waited (800 + jitter (rnd 3)), Invoked])
      | Inl e4 \<Rightarrow>
     (case f 4 of Inr v \<Rightarrow> (Inr v, [Invoked, Failed e1 1, Waited (200 + jitter (rnd 1)),
                                     Invoked, Failed e2 2, Waited (400 + jitter (rnd 2)),
                                     Invoked, Failed e3 3, Waited (800 + jitter (rnd 3)),
                                     Invoked, Failed e4 4, Waited (1600 + jitter (rnd 4)), Invoked])
      | Inl e5 \<Rightarrow> (Inl (Rethrown e5),
                                    [Invoked, Failed e1 1, Waited (200 + jitter (rnd 1)),
                                     Invoked, Failed e2 2, Waited (400 + jitter (rnd 2)),
                                     Invoked, Failed e3 3, Waited (800 + jitter (rnd 3)),
                                     Invoked, Failed e4 4, Waited (1600 + jitter (rnd 4)),
                                     Invoked, Failed e5 5]))))))"
  by (simp add: retryWithExponentialBackoff_def retry_def retryLoop.simps numeral_eq_Suc split: sum.splits)


lemma retry_default_invocations:
  "invocations (snd (retryWithExponentialBackoff f rnd None)) \<le> 5"
  by (simp add: retry_default_unfold invocations_def split: sum.splits)

lemma retry_default_delays:
  "delays (snd (retryWithExponentialBackoff f rnd None)) =
     map (\<lambda>n. 2 ^ n * 100 + jitter (rnd (int n)))
       [1..<invocations (snd (retryWithExponentialBackoff f rnd None))]"
  by (simp add: retry_default_unfold invocations_def delays_def List.map_filter_simps
        upt_rec[of 1] upt_rec[of 2] upt_rec[of 3] upt_rec[of 4]
      split: sum.splits)

lemma retry_default_success:
  assumes "k < 5" and "\<forall>j<k. isl (f j)" and "f k = Inr v"
  shows "fst (retryWithExponentialBackoff f rnd None) = Inr v \<and>
         invocations (snd (retryWithExponentialBackoff f rnd None)) = k + 1"
proof -
  from assms(1) consider "k = 0" | "k = 1" | "k = 2" | "k = 3" | "k = 4" by linarith
  then show ?thesis
  proof cases
    case 1
    with assms(3) show ?thesis by (simp add: retry_default_unfold invocations_def)
  next
    case 2
    with assms(2) have "isl (f 0)" by simp
    with 2 assms(3) show ?thesis
      by (auto simp: retry_default_unfold invocations_def isl_def)
  next
    case 3
    with assms(2) have "isl (f 0)" "isl (f 1)" by simp_all
    with 3 assms(3) show ?thesis
      by (auto simp: retry_default_unfold invocations_def isl_def)
  next
    case 4
    with assms(2) have "isl (f 0)" "isl (f 1)" "isl (f 2)" by simp_all
    with 4 assms(3) show ?thesis
      by (auto simp: retry_default_unfold invocations_def isl_def)
  next
    case 5
    with assms(2) have "isl (f 0)" "isl (f 1)" "isl (f 2)" "isl (f 3)" by simp_all
    with 5 assms(3) show ?thesis
      by (auto simp: retry_default_unfold invocations_def isl_def)
  qed
qed

lemma retry_default_failure:
  assumes "\<forall>j<5. isl (f j)"
  shows "fst (retryWithExponentialBackoff f rnd None) = Inl (Rethrown (projl (f 4))) \<and>
         invocations (snd (retryWithExponentialBackoff f rnd None)) = 5"
proof -
  from assms have "isl (f 0)" "isl (f 1)" "isl (f 2)" "isl (f 3)" "isl (f 4)" by simp_all
  then show ?thesis
    by (auto simp: retry_default_unfold invocations_def isl_def)
qed

text \<open>
  Claim C8. At its default cap, \<^verbatim>\<open>retryWithExponentialBackoff\<close> calls the
  operation at most 5 times. It returns the value of the first call that succeeds,
  after exactly that many calls. When the first 5 calls all throw, it throws the error
  of the 5th call, after exactly 5 calls. The delay before retry \<open>n\<close> is
  \<open>2 ^ n * 100\<close> plus the jitter \<^verbatim>\<open>Math.random() * 100\<close>, which is below 100 for
  a random number in the interval from 0 to 1. Delays are real numbers here.
\<close>

theorem retry_default_cap:
  "invocations (snd (retryWithExponentialBackoff f rnd None)) \<le> 5 \<and>
   (\<forall>k v. k < 5 \<and> (\<forall>j<k. isl (f j)) \<and> f k = Inr v \<longrightarrow>
      fst (retryWithExponentialBackoff f rnd None) = Inr v \<and>
      invocations (snd (retryWithExponentialBackoff f rnd None)) = k + 1) \<and>
   ((\<forall>j<5. isl (f j)) \<longrightarrow>
      fst (retryWithExponentialBackoff f rnd None) = Inl (Rethrown (projl (f 4))) \<and>
      invocations (snd (retryWithExponentialBackoff f rnd None)) = 5) \<and>
   delays (snd (retryWithExponentialBackoff f rnd None)) =
     map (\<lambda>n. 2 ^ n * 100 + jitter (rnd (int n)))
       [1..<invocations (snd (retryWithExponentialBackoff f rnd None))] \<and>
   (\<forall>u. 0 \<le> u \<and> u < 1 \<longrightarrow> 0 \<le> jitter u \<and> jitter u < 100)"
proof (intro conjI)
  show "invocations (snd (retryWithExponentialBackoff f rnd None)) \<le> 5"
    by (rule retry_default_invocations)
  show "\<forall>k v. k < 5 \<and> (\<forall>j<k. isl (f j)) \<and> f k = Inr v \<longrightarrow>
      fst (retryWithExponentialBackoff f rnd None) = Inr v \<and>
      invocations (snd (retryWithExponentialBackoff f rnd None)) = k + 1"
    using retry_default_success[of _ f _ rnd] by blast
  show "(\<forall>j<5. isl (f j)) \<longrightarrow>
      fst (retryWithExponentialBackoff f rnd None) = Inl (Rethrown (projl (f 4))) \<and>
      invocations (snd (retryWithExponentialBackoff f rnd None)) = 5"
    using retry_default_failure[of f rnd] by blast
  show "delays (snd (retryWithExponentialBackoff f rnd None)) =
     map (\<lambda>n. 2 ^ n * 100 + jitter (rnd (int n)))
       [1..<invocations (snd (retryWithExponentialBackoff f rnd None))]"
    by (rule retry_default_delays)
  show "\<forall>u. 0 \<le> u \<and> u < 1 \<longrightarrow> 0 \<le> jitter u \<and> jitter u < 100"
    by (simp add: jitter_def)
qed

theorem retry_default_cap_witness:
  "fst (retryWithExponentialBackoff
          (\<lambda>n. if n < 2 then Inl ''timeout'' else Inr (7::nat)) (\<lambda>i. 1 / 2) None) = Inr 7 \<and>
   invocations (snd (retryWithExponentialBackoff
          (\<lambda>n. if n < 2 then Inl ''timeout'' else Inr (7::nat)) (\<lambda>i. 1 / 2) None)) = 3 \<and>
   fst (retryWithExponentialBackoff
          (\<lambda>n. Inl (n + 1) :: nat + nat) (\<lambda>i. 1 / 2) None) = Inl (Rethrown 5) \<and>
   jitter (1 / 2) < 100"
proof -
  let ?f = "\<lambda>n::nat. if n < 2 then Inl ''timeout'' else Inr (7::nat)"
  let ?g = "\<lambda>n::nat. Inl (n + 1) :: nat + nat"
  have a: "(2::nat) < 5 \<and> (\<forall>j<2. isl (?f j)) \<and> ?f 2 = Inr 7" by simp
  have b: "\<forall>j<5. isl (?g j)" by simp
  have c: "(0::real) \<le> 1 / 2 \<and> (1::real) / 2 < 1" by simp
  from retry_default_cap[of ?f "\<lambda>i. 1 / 2"] a
  have 1: "fst (retryWithExponentialBackoff ?f (\<lambda>i. 1 / 2) None) = Inr 7 \<and>
           invocations (snd (retryWithExponentialBackoff ?f (\<lambda>i. 1 / 2) None)) = 3"
    by (metis (no_types, lifting) numeral_2_eq_2 numeral_3_eq_3 Suc_eq_plus1)
  from retry_default_cap[of ?g "\<lambda>i. 1 / 2"] b
  have 2: "fst (retryWithExponentialBackoff ?g (\<lambda>i. 1 / 2) None) = Inl (Rethrown 5)"
    by simp
  from retry_default_cap[of ?f "\<lambda>i. 1 / 2"] c have 3: "jitter (1 / 2) < 100" by blast
  from 1 2 3 show ?thesis by blast
qed

subsection \<open>Uploading one recording\<close>

lemma reportAll_calls: "snd (reportAll R h ds) = h @ map ReportCrash ds"
proof (induction ds arbitrary: h)
  case Nil
  show ?case by simp
next
  case (Cons d ds)
  from Cons[of "h @ [ReportCrash d]"] show ?case
    by (cases "reportAll R (h @ [ReportCrash d]) ds") simp
qed

lemma maybeRemoveAssetFile_logfile [simp]: "logfile (maybeRemoveAssetFile f w) = logfile w"
  by (simp add: maybeRemoveAssetFile_def split: option.splits)

lemma foldl_remove_logfile:
  "logfile (foldl (\<lambda>w' file. if file \<notin> S then maybeRemoveAssetFile file w' else w') w fs) = logfile w"
  by (induction fs arbitrary: w) auto

lemma removeRecordingAssets_logfile:
  "removeRecordingAssets P r inc w = Inr w' \<Longrightarrow> logfile w' = logfile w"
  by (auto simp: removeRecordingAssets_def foldl_remove_logfile split: sum.splits)

text \<open>
  Claim C4. The upload of a recording whose status is \<open>uploaded\<close> returns at once:
  no call is made on the remote service and neither the log nor any file changes. The
  value returned is the remote id of the recording; a recording that was marked
  uploaded without ever having got a remote id has none to return, and the value is
  \<^verbatim>\<open>null\<close>.
\<close>

theorem upload_already_uploaded:
  assumes "status r = uploaded"
  shows "doUploadRecording P R srv r apiKey removeAssets (w, h) =
           (Inr (if truthyStr (recordingId r) then Returned (recordingId r) else Null), (w, h))"
  using assms by (simp add: doUploadRecording_def uploadSkipReason_def)

text \<open>
  Claim C3, as the code has it. The upload of a crashed recording opens the
  connection; when it opens, one crash report is sent for every entry of the crash
  data of the recording, in order, and one more for the marker
  \<^verbatim>\<open>{ kind: "recordingMetadata", recordingId }\<close> that is pushed after them: three
  reports for two entries. When no report is rejected, exactly one event
  \<^verbatim>\<open>crashUploaded\<close> is appended to the log and the connection is closed; otherwise
  the log keeps its content. In every case these are the only calls made: no upload
  is begun, no bytes are sent and no \<^verbatim>\<open>uploadStarted\<close> event is written.
\<close>

theorem crash_upload:
  assumes "status r = crashed"
    and "key = (if truthyStr apiKey then apiKey else readToken R)"
    and "ds = (case crashData r of None \<Rightarrow> [] | Some xs \<Rightarrow> xs) @ [recordingMetadataMarker r]"
    and "h1 = h @ [InitConnection srv key]"
    and "done = (initConnection R h1 \<and> fst (reportAll R h1 ds) = [])"
    and "doUploadRecording P R srv r apiKey removeAssets (w, h) = (res, (w', h'))"
  shows "h' = h1 @ (if initConnection R h1
                    then map ReportCrash ds @ (if done then [CloseConnection] else [])
                    else []) \<and>
         logfile w' =
           (if done
            then logfile (addRecordingEvent P (dateNow R (h1 @ map ReportCrash ds))
                            ''crashUploaded'' (recId r) (\<lambda>ev. ev\<lparr>obj_server := Some srv\<rparr>) w)
            else logfile w)"
proof -
  have skip: "uploadSkipReason r = None"
    using assms(1) by (simp add: uploadSkipReason_def)
  obtain errs hr where ra: "reportAll R h1 ds = (errs, hr)" by (cases "reportAll R h1 ds")
  with reportAll_calls[of R h1 ds] have hr: "hr = h1 @ map ReportCrash ds" by simp
  show ?thesis
  proof (cases "initConnection R h1")
    case False
    with assms skip show ?thesis
      by (auto simp: doUploadRecording_def doUploadCrash_def Let_def
               dest: removeRecordingAssets_logfile split: sum.splits if_splits)
  next
    case True
    show ?thesis
    proof (cases errs)
      case Nil
      with True assms skip ra hr show ?thesis
        by (auto simp: doUploadRecording_def doUploadCrash_def Let_def
                 dest: removeRecordingAssets_logfile split: sum.splits if_splits)
    next
      case (Cons e es)
      with True assms skip ra hr show ?thesis
        by (auto simp: doUploadRecording_def doUploadCrash_def Let_def
                 dest: removeRecordingAssets_logfile split: sum.splits if_splits)
    qed
  qed
qed


theorem upload_already_uploaded_witness:
  "doUploadRecording
     (tablePlatform [])
     reliableRemote ''wss://dispatch.replay.io''
     \<lparr> recId = Some ''A'', createTime = None, buildId = None, runtime = ''unknown'',
       metadata = [], sourcemaps = [], status = uploaded, path = Some ''/tmp/a'',
       server = Some ''wss://dispatch.replay.io'', recordingId = Some ''R1'',
       unusableReason = None, crashData = None \<rparr>
     (Some ''key'') True
     (\<lparr> logfile = Some ''1'', files = map_of [] \<rparr>, []) =
   (Inr (Returned (Some ''R1'')), (\<lparr> logfile = Some ''1'', files = map_of [] \<rparr>, []))"
  by (simp add: upload_already_uploaded)

text \<open>
  Claim C3 as stated fails: for a crashed recording with the two crash data entries
  \<^verbatim>\<open>d1\<close> and \<^verbatim>\<open>d2\<close>, three crash reports are sent, not two.
\<close>

theorem crash_upload_counterexample:
  "snd (snd (doUploadRecording
     (tablePlatform [])
     reliableRemote ''wss://dispatch.replay.io''
     \<lparr> recId = Some ''A'', createTime = None, buildId = None, runtime = ''unknown'',
       metadata = [], sourcemaps = [], status = crashed, path = None,
       server = None, recordingId = None,
       unusableReason = None, crashData = Some [VStr ''d1'', VStr ''d2''] \<rparr>
     (Some ''key'') False
     (\<lparr> logfile = None, files = map_of [] \<rparr>, []))) =
   [InitConnection ''wss://dispatch.replay.io'' (Some ''key''),
    ReportCrash (VStr ''d1''),
    ReportCrash (VStr ''d2''),
    ReportCrash (VObj [(''kind'', VStr ''recordingMetadata''), (''recordingId'', VStr ''A'')]),
    CloseConnection]"
  by (simp add: doUploadRecording_def uploadSkipReason_def doUploadCrash_def reliableRemote_def
        recordingMetadataMarker_def tablePlatform_def)

theorem crash_upload_witness:
  "snd (snd (doUploadRecording
     (tablePlatform [])
     reliableRemote ''wss://dispatch.replay.io''
     \<lparr> recId = Some ''A'', createTime = None, buildId = None, runtime = ''unknown'',
       metadata = [], sourcemaps = [], status = crashed, path = None,
       server = None, recordingId = None,
       unusableReason = None, crashData = Some [VStr ''d1'', VStr ''d2''] \<rparr>
     None True
     (\<lparr> logfile = Some ''1'', files = map_of [] \<rparr>, [CloseConnection]))) =
   [CloseConnection,
    InitConnection ''wss://dispatch.replay.io'' (Some ''token''),
    ReportCrash (VStr ''d1''),
    ReportCrash (VStr ''d2''),
    ReportCrash (VObj [(''kind'', VStr ''recordingMetadata''), (''recordingId'', VStr ''A'')]),
    CloseConnection] \<and>
   logfile (fst (snd (doUploadRecording
     (tablePlatform [])
     reliableRemote ''wss://dispatch.replay.io''
     \<lparr> recId = Some ''A'', createTime = None, buildId = None, runtime = ''unknown'',
       metadata = [], sourcemaps = [], status = crashed, path = None,
       server = None, recordingId = None,
       unusableReason = None, crashData = Some [VStr ''d1'', VStr ''d2''] \<rparr>
     None True
     (\<lparr> logfile = Some ''1'', files = map_of [] \<rparr>, [CloseConnection])))) =
   Some (''1'' @ [CHR 0x0A] @ ''E'' @ [CHR 0x0A])"
proof -
  let ?P = "(tablePlatform [])"
  let ?r = "\<lparr> recId = Some ''A'', createTime = None, buildId = None, runtime = ''unknown'',
       metadata = [], sourcemaps = [], status = crashed, path = None,
       server = None, recordingId = None,
       unusableReason = None, crashData = Some [VStr ''d1'', VStr ''d2''] \<rparr>"
  let ?st = "(\<lparr> logfile = Some ''1'', files = map_of [] \<rparr>, [CloseConnection])"
  let ?X = "doUploadRecording ?P reliableRemote ''wss://dispatch.replay.io'' ?r None True ?st"
  have st: "status ?r = crashed" by simp
  have X: "?X = (fst ?X, (fst (snd ?X), snd (snd ?X)))" by simp
  from crash_upload[OF st refl refl refl refl X]
  show ?thesis
    by (simp add: reliableRemote_def recordingMetadataMarker_def addRecordingEvent_def
          readRecordingFile_def writeRecordingFile_def tablePlatform_def)
qed

subsection \<open>Removing a recording\<close>

lemma splitLines_ne [simp]: "splitLines s \<noteq> []"
  by (induction s) (auto split: list.splits)

















subsection \<open>Removing asset files\<close>

text \<open>
  Claim C2 fails on the code. The recordings \<^verbatim>\<open>A\<close> and \<^verbatim>\<open>B\<close> share the source
  map file \<^verbatim>\<open>/m/x.map\<close>, and \<^verbatim>\<open>B\<close> has not been uploaded: its upload has
  started and its status is \<open>startedUpload\<close>. Removing the assets of \<^verbatim>\<open>A\<close>
  deletes the shared file. The filter of \<^verbatim>\<open>removeRecordingAssets\<close> keeps every
  recording but the uploaded ones and the one being cleaned, yet
  \<^verbatim>\<open>listAllRecordings\<close>, called without \<^verbatim>\<open>all\<close>, has dropped \<^verbatim>\<open>B\<close> before the
  filter runs. With the same log up to the line \<^verbatim>\<open>b5\<close>, where \<^verbatim>\<open>B\<close> is
  \<open>onDisk\<close>, the file is kept.
\<close>

theorem shared_sourcemap_removed:
  "map (\<lambda>r. (recId r, status r, map sm_path (sourcemaps r)))
     (projr (readRecordings sharedLogPlatform False
        (sharedLogWorld [''a1'', ''a2'', ''a3'', ''a4'', ''b1'', ''b2'', ''b3'', ''b4'', ''b5'']))) =
     [(Some ''A'', onDisk, [Some ''/m/x.map'']),
      (Some ''B'', startedUpload, [Some ''/m/x.map''])] \<and>
   map_sum (\<lambda>e. e) (\<lambda>w'. files w' ''/m/x.map'')
     (removeRecordingAssets sharedLogPlatform
        (projr (readRecordings sharedLogPlatform False
           (sharedLogWorld [''a1'', ''a2'', ''a3'', ''a4'', ''b1'', ''b2'', ''b3'', ''b4'', ''b5''])) ! 0)
        False
        (sharedLogWorld [''a1'', ''a2'', ''a3'', ''a4'', ''b1'', ''b2'', ''b3'', ''b4'', ''b5''])) =
     Inr None \<and>
   map_sum (\<lambda>e. e) (\<lambda>w'. files w' ''/m/x.map'')
     (removeRecordingAssets sharedLogPlatform
        (projr (readRecordings sharedLogPlatform False
           (sharedLogWorld [''a1'', ''a2'', ''a3'', ''a4'', ''b1'', ''b2'', ''b3'', ''b4''])) ! 0)
        False
        (sharedLogWorld [''a1'', ''a2'', ''a3'', ''a4'', ''b1'', ''b2'', ''b3'', ''b4''])) =
     Inr (Some ''{}'')"
  by (simp add: sharedLogPlatform_def tablePlatform_def sharedLogWorld_def sharedLogTable_def asset_defs eval_defs)

subsection \<open>Uploading every recording\<close>

lemma outcomes_append [simp]: "outcomes (xs @ ys) = outcomes xs @ outcomes ys"
  by (induction xs rule: outcomes.induct) simp_all

lemma started_append [simp]: "started (xs @ ys) = started xs @ started ys"
  by (induction xs rule: started.induct) simp_all













end
